theory Spec2Isabelle
  imports Complex_Main
begin

section \<open>Python values used by the notebooks\<close>

text \<open>
  The notebooks subclass two discretization classes of the PorePy library. The overriding
  methods read a grid, nested data dictionaries and SciPy sparse matrices, and write one block
  of a NumPy array of matrices. Floating point numbers are modelled as real numbers. Every
  exception the Python code can raise is a value of \<open>error\<close>.
\<close>

datatype error =
  KeyError | IndexError | ValueError | AssertionError | AttributeError | NameError

text \<open>\<open>d[k]\<close> on a dictionary: a missing key raises KeyError.\<close>

definition present :: "'v option \<Rightarrow> error + 'v" where
  "present entry = (case entry of None \<Rightarrow> Inl KeyError | Some v \<Rightarrow> Inr v)"

definition getitem :: "('k \<rightharpoonup> 'v) \<Rightarrow> 'k \<Rightarrow> error + 'v" where
  "getitem d k = present (d k)"

text \<open>Sequencing of two steps, the second of which runs only when the first did not raise.\<close>

definition and_then :: "error + 'a \<Rightarrow> ('a \<Rightarrow> error + 'b) \<Rightarrow> error + 'b" where
  "and_then m f = (case m of Inl e \<Rightarrow> Inl e | Inr x \<Rightarrow> f x)"

subsection \<open>Sparse matrices and arrays\<close>

text \<open>
  A SciPy sparse matrix has a shape \<open>(nrows, ncols)\<close> and entries. It is modelled by its
  list of rows together with the number of columns (which the rows cannot tell when there
  are none); every row of a matrix has \<open>ncols\<close> entries. A NumPy vector is a list of
  reals.
\<close>

record spmatrix =
  ncols :: nat
  rows :: "real list list"

definition nrows :: "spmatrix \<Rightarrow> nat" where
  "nrows M = length (rows M)"

definition dot :: "real list \<Rightarrow> real list \<Rightarrow> real" where
  "dot xs ys = sum_list (map2 (*) xs ys)"

text \<open>\<open>M.T\<close>\<close>

definition transpose_matrix :: "spmatrix \<Rightarrow> spmatrix" where
  "transpose_matrix M =
     \<lparr>ncols = nrows M, rows = map (\<lambda>j. map (\<lambda>r. r ! j) (rows M)) [0..<ncols M]\<rparr>"

text \<open>\<open>c * M\<close> and \<open>M * c\<close> for a scalar \<open>c\<close>: every entry is multiplied.\<close>

definition scalar_times_matrix :: "real \<Rightarrow> spmatrix \<Rightarrow> spmatrix" where
  "scalar_times_matrix c M = \<lparr>ncols = ncols M, rows = map (map (\<lambda>x. c * x)) (rows M)\<rparr>"

definition matrix_times_scalar :: "spmatrix \<Rightarrow> real \<Rightarrow> spmatrix" where
  "matrix_times_scalar M c = \<lparr>ncols = ncols M, rows = map (map (\<lambda>x. x * c)) (rows M)\<rparr>"

definition scalar_times_vector :: "real \<Rightarrow> real list \<Rightarrow> real list" where
  "scalar_times_vector c v = map (\<lambda>x. c * x) v"

definition vector_times_scalar :: "real list \<Rightarrow> real \<Rightarrow> real list" where
  "vector_times_scalar v c = map (\<lambda>x. x * c) v"

text \<open>
  \<open>A * B\<close> on two sparse matrices is the matrix product. SciPy raises
  \<open>ValueError('dimension mismatch')\<close> unless \<open>A\<close> has as many columns as \<open>B\<close> has rows.
\<close>

definition matrix_times_matrix :: "spmatrix \<Rightarrow> spmatrix \<Rightarrow> error + spmatrix" where
  "matrix_times_matrix A B =
     (if ncols A \<noteq> nrows B then Inl ValueError
      else Inr \<lparr>ncols = ncols B,
                rows = map (\<lambda>r. map (\<lambda>c. dot r c) (rows (transpose_matrix B))) (rows A)\<rparr>)"

text \<open>\<open>M * v\<close> on a sparse matrix and a vector; the same check applies.\<close>

definition matrix_times_vector :: "spmatrix \<Rightarrow> real list \<Rightarrow> error + real list" where
  "matrix_times_vector M v =
     (if ncols M \<noteq> length v then Inl ValueError
      else Inr (map (\<lambda>r. dot r v) (rows M)))"

text \<open>
  \<open>A + B\<close> and \<open>A - B\<close> on two sparse matrices. SciPy raises
  \<open>ValueError('inconsistent shapes')\<close> unless the shapes agree.
\<close>

definition matrix_plus :: "spmatrix \<Rightarrow> spmatrix \<Rightarrow> error + spmatrix" where
  "matrix_plus A B =
     (if nrows A \<noteq> nrows B \<or> ncols A \<noteq> ncols B then Inl ValueError
      else Inr \<lparr>ncols = ncols A, rows = map2 (map2 (+)) (rows A) (rows B)\<rparr>)"

definition matrix_minus :: "spmatrix \<Rightarrow> spmatrix \<Rightarrow> error + spmatrix" where
  "matrix_minus A B =
     (if nrows A \<noteq> nrows B \<or> ncols A \<noteq> ncols B then Inl ValueError
      else Inr \<lparr>ncols = ncols A, rows = map2 (map2 (-)) (rows A) (rows B)\<rparr>)"

subsection \<open>Grids and data dictionaries\<close>

text \<open>The attributes of a PorePy grid that the methods read.\<close>

record grid =
  dim :: nat
  num_faces :: nat
  num_cells :: nat
  cell_faces :: spmatrix

text \<open>
  \<open>data[pp.PARAMETERS][keyword]\<close> is a dictionary of parameters, of which the methods read
  \<open>"time_step"\<close> and \<open>"source"\<close>; \<open>data[pp.DISCRETIZATION_MATRICES][keyword]\<close> is a
  dictionary of matrices, of which they read \<open>"bound_flux"\<close> and \<open>"bound_source"\<close>. A key
  that is absent is \<open>None\<close>.
\<close>

record parameter_dictionary =
  time_step :: "real option"
  source :: "real list option"

record matrix_dictionary =
  bound_flux :: "spmatrix option"
  bound_source :: "spmatrix option"

record data =
  PARAMETERS :: "string \<rightharpoonup> parameter_dictionary"
  DISCRETIZATION_MATRICES :: "string \<rightharpoonup> matrix_dictionary"

text \<open>An object of \<open>pp.Tpfa\<close> or \<open>pp.ScalarSource\<close>: the subclasses read \<open>self.keyword\<close> only.\<close>

record discretization =
  keyword :: string

text \<open>\<open>data[pp.PARAMETERS][self.keyword]["time_step"]\<close>\<close>

definition get_time_step :: "data \<Rightarrow> discretization \<Rightarrow> error + real" where
  "get_time_step d self =
     and_then (getitem (PARAMETERS d) (keyword self)) (\<lambda>p. present (time_step p))"

section \<open>ImplicitTpfa.assemble_matrix_rhs\<close>

text \<open>
  \<^verbatim>\<open>
  def assemble_matrix_rhs(self, g, data):
      a, b = super().assemble_matrix_rhs(g, data)
      dt = data[pp.PARAMETERS][self.keyword]["time_step"]
      a = a * dt
      b = b * dt
      return a, b
  \<close>
  The method of the base class \<open>pp.Tpfa\<close> belongs to the library; it is the parameter
  \<open>super_assemble_matrix_rhs\<close>.
\<close>

definition ImplicitTpfa_assemble_matrix_rhs ::
  "(discretization \<Rightarrow> grid \<Rightarrow> data \<Rightarrow> error + spmatrix \<times> real list) \<Rightarrow>
   discretization \<Rightarrow> grid \<Rightarrow> data \<Rightarrow> error + spmatrix \<times> real list" where
  "ImplicitTpfa_assemble_matrix_rhs super_assemble_matrix_rhs self g d =
     and_then (super_assemble_matrix_rhs self g d) (\<lambda>(a, b).
     and_then (get_time_step d self) (\<lambda>dt.
     Inr (matrix_times_scalar a dt, vector_times_scalar b dt)))"

section \<open>ImplicitTpfa.assemble_int_bound_flux and assemble_int_bound_source\<close>

text \<open>
  The coupling methods receive three arrays of blocks, \<open>cc\<close>, \<open>matrix\<close> and \<open>rhs\<close>, and
  work in place. The three arrays are the state of the model: a method takes it and returns
  it together with the exception raised, if any.
\<close>

record coupling =
  cc :: "spmatrix list list"
  matrix :: "spmatrix list list"
  rhs :: "real list list"

text \<open>
  An index into a NumPy axis of length \<open>n\<close>: \<open>-n \<le> i < 0\<close> counts from the end, anything
  outside \<open>-n \<le> i < n\<close> raises IndexError.
\<close>

definition axis_index :: "nat \<Rightarrow> int \<Rightarrow> error + nat" where
  "axis_index n i =
     (if 0 \<le> i \<and> i < int n then Inr (nat i)
      else if - int n \<le> i \<and> i < 0 then Inr (nat (i + int n))
      else Inl IndexError)"

text \<open>Reading \<open>a[i, j]\<close> and storing \<open>a[i, j] = v\<close> on a two-dimensional array of blocks.\<close>

definition block_get :: "spmatrix list list \<Rightarrow> int \<Rightarrow> int \<Rightarrow> error + spmatrix" where
  "block_get a i j =
     and_then (axis_index (length a) i) (\<lambda>r.
     and_then (axis_index (length (a ! r)) j) (\<lambda>c.
     Inr (a ! r ! c)))"

definition block_set ::
  "spmatrix list list \<Rightarrow> int \<Rightarrow> int \<Rightarrow> spmatrix \<Rightarrow> error + spmatrix list list" where
  "block_set a i j v =
     and_then (axis_index (length a) i) (\<lambda>r.
     and_then (axis_index (length (a ! r)) j) (\<lambda>c.
     Inr (a[r := (a ! r)[c := v]])))"

text \<open>
  The mortar grid of an edge: the matrices its methods \<open>mortar_to_slave_int()\<close> and
  \<open>mortar_to_master_int()\<close> return. \<open>data_edge["mortar_grid"]\<close> may be absent.
\<close>

record MortarGrid =
  mortar_to_slave_int :: spmatrix
  mortar_to_master_int :: spmatrix

record edge_data =
  mortar_grid :: "MortarGrid option"

text \<open>\<open>data[pp.DISCRETIZATION_MATRICES][self.keyword]["bound_flux"]\<close>\<close>

definition get_bound_flux :: "data \<Rightarrow> discretization \<Rightarrow> error + spmatrix" where
  "get_bound_flux d self =
     and_then (getitem (DISCRETIZATION_MATRICES d) (keyword self)) (\<lambda>m. present (bound_flux m))"

text \<open>
  \<^verbatim>\<open>
  def assemble_int_bound_flux(
      self, g, data, data_edge, grid_swap, cc, matrix, rhs, self_ind
  ):
      dt = data[pp.PARAMETERS][self.keyword]["time_step"]
      div = g.cell_faces.T
      bound_flux = data[pp.DISCRETIZATION_MATRICES][self.keyword]["bound_flux"]
      mg = data_edge["mortar_grid"]
      if grid_swap:
          proj = mg.mortar_to_slave_int()
      else:
          proj = mg.mortar_to_master_int()
      if g.dim > 0 and bound_flux.shape[0] != g.num_faces:
          hf2f = pp.fvutils.map_hf_2_f(nd=1, g=g)
          bound_flux = hf2f * bound_flux
      if g.dim > 0 and bound_flux.shape[1] != proj.shape[0]:
          raise ValueError(...)
      cc[self_ind, 2] += dt * div * bound_flux * proj
  \<close>
  \<open>pp.fvutils.map_hf_2_f\<close> belongs to the library and is the parameter \<open>map_hf_2_f\<close>.
  The last statement reads the block, evaluates the right-hand side from left to right, adds
  and stores the sum. The variables \<open>div\<close> and \<open>bound_flux\<close> of the method are
  \<open>divg\<close> and \<open>bf\<close> here.
\<close>

definition flux_proj :: "MortarGrid \<Rightarrow> bool \<Rightarrow> spmatrix" where
  "flux_proj mg grid_swap = (if grid_swap then mortar_to_slave_int mg else mortar_to_master_int mg)"

definition face_bound_flux :: "(grid \<Rightarrow> spmatrix) \<Rightarrow> grid \<Rightarrow> spmatrix \<Rightarrow> error + spmatrix" where
  "face_bound_flux map_hf_2_f g bf =
     (if 0 < dim g \<and> nrows bf \<noteq> num_faces g
      then matrix_times_matrix (map_hf_2_f g) bf
      else Inr bf)"

definition ImplicitTpfa_assemble_int_bound_flux ::
  "(grid \<Rightarrow> spmatrix) \<Rightarrow> discretization \<Rightarrow> grid \<Rightarrow> data \<Rightarrow> edge_data \<Rightarrow> bool \<Rightarrow>
   coupling \<Rightarrow> int \<Rightarrow> error option \<times> coupling" where
  "ImplicitTpfa_assemble_int_bound_flux map_hf_2_f self g d data_edge grid_swap st self_ind =
     (case
        and_then (get_time_step d self) (\<lambda>dt.
        let divg = transpose_matrix (cell_faces g) in
        and_then (get_bound_flux d self) (\<lambda>bf.
        and_then (present (mortar_grid data_edge)) (\<lambda>mg.
        let proj = flux_proj mg grid_swap in
        and_then (face_bound_flux map_hf_2_f g bf) (\<lambda>bf.
        if 0 < dim g \<and> ncols bf \<noteq> nrows proj then Inl ValueError
        else
        and_then (block_get (cc st) self_ind 2) (\<lambda>old.
        and_then (matrix_times_matrix (scalar_times_matrix dt divg) bf) (\<lambda>m1.
        and_then (matrix_times_matrix m1 proj) (\<lambda>m2.
        and_then (matrix_plus old m2) (\<lambda>new.
        and_then (block_set (cc st) self_ind 2 new) (\<lambda>cc'.
        Inr (st\<lparr>cc := cc'\<rparr>))))))))))
      of Inl e \<Rightarrow> (Some e, st) | Inr st' \<Rightarrow> (None, st'))"

text \<open>
  The condition of the \<open>raise ValueError\<close> statement of \<open>assemble_int_bound_flux\<close>, on
  the stored \<open>bound_flux\<close> and the projection.
\<close>

definition shapes_inconsistent :: "(grid \<Rightarrow> spmatrix) \<Rightarrow> grid \<Rightarrow> spmatrix \<Rightarrow> spmatrix \<Rightarrow> bool" where
  "shapes_inconsistent map_hf_2_f g bf0 proj =
     (case face_bound_flux map_hf_2_f g bf0 of
        Inl e \<Rightarrow> False
      | Inr bf \<Rightarrow> 0 < dim g \<and> ncols bf \<noteq> nrows proj)"

text \<open>
  \<^verbatim>\<open>
  def assemble_int_bound_source(
      self, g, data, data_edge, grid_swap, cc, matrix, rhs, self_ind
  ):
      mg = data_edge["mortar_grid"]
      if grid_swap:
          proj = mg.mortar_to_master_int()
      else:
          proj = mg.mortar_to_slave_int()
      dt = data[pp.PARAMETERS][self.keyword]["time_step"]
      cc[self_ind, 2] -= proj * dt
  \<close>
\<close>

definition source_proj :: "MortarGrid \<Rightarrow> bool \<Rightarrow> spmatrix" where
  "source_proj mg grid_swap = (if grid_swap then mortar_to_master_int mg else mortar_to_slave_int mg)"

definition ImplicitTpfa_assemble_int_bound_source ::
  "discretization \<Rightarrow> grid \<Rightarrow> data \<Rightarrow> edge_data \<Rightarrow> bool \<Rightarrow>
   coupling \<Rightarrow> int \<Rightarrow> error option \<times> coupling" where
  "ImplicitTpfa_assemble_int_bound_source self g d data_edge grid_swap st self_ind =
     (case
        and_then (present (mortar_grid data_edge)) (\<lambda>mg.
        let proj = source_proj mg grid_swap in
        and_then (get_time_step d self) (\<lambda>dt.
        and_then (block_get (cc st) self_ind 2) (\<lambda>old.
        and_then (matrix_minus old (matrix_times_scalar proj dt)) (\<lambda>new.
        and_then (block_set (cc st) self_ind 2 new) (\<lambda>cc'.
        Inr (st\<lparr>cc := cc'\<rparr>))))))
      of Inl e \<Rightarrow> (Some e, st) | Inr st' \<Rightarrow> (None, st'))"

section \<open>ImplicitScalarSource.assemble_rhs\<close>

text \<open>
  \<^verbatim>\<open>
  def assemble_rhs(self, g, data):
      dt = data[pp.PARAMETERS][self.keyword]["time_step"]
      matrix_dictionary = data[pp.DISCRETIZATION_MATRICES][self.keyword]
      parameter_dictionary = data[pp.PARAMETERS][self.keyword]
      sources = parameter_dictionary["source"]
      assert sources.size == self.ndof(g), "There should be one source value for each cell"
      return matrix_dictionary["bound_source"] * sources * dt
  \<close>
  \<open>ndof\<close> is inherited from \<open>pp.ScalarSource\<close> and is the parameter \<open>ndof\<close>. The
  docstring of the method also says that the necessary operators are discretized when the
  data dictionary does not hold them; the body has no such step, and an entry that is
  missing raises KeyError.
\<close>

definition ImplicitScalarSource_assemble_rhs ::
  "(discretization \<Rightarrow> grid \<Rightarrow> nat) \<Rightarrow> discretization \<Rightarrow> grid \<Rightarrow> data \<Rightarrow> error + real list" where
  "ImplicitScalarSource_assemble_rhs ndof self g d =
     and_then (get_time_step d self) (\<lambda>dt.
     and_then (getitem (DISCRETIZATION_MATRICES d) (keyword self)) (\<lambda>matrix_dictionary.
     and_then (getitem (PARAMETERS d) (keyword self)) (\<lambda>parameter_dictionary.
     and_then (present (source parameter_dictionary)) (\<lambda>sources.
     if length sources \<noteq> ndof self g then Inl AssertionError
     else
     and_then (present (bound_source matrix_dictionary)) (\<lambda>bs.
     and_then (matrix_times_vector bs sources) (\<lambda>v.
     Inr (vector_times_scalar v dt)))))))"

section \<open>Example inputs\<close>

text \<open>
  A one-dimensional grid with one cell and two faces, a point grid, data dictionaries for the
  keyword \<open>transport\<close> with time step \<open>1/2\<close>, a mortar grid and a coupling array of
  \<open>3 \<times> 3\<close> blocks.
\<close>

definition Z :: spmatrix where "Z = \<lparr>ncols = 1, rows = [[0]]\<rparr>"

definition I2 :: spmatrix where "I2 = \<lparr>ncols = 2, rows = [[1, 0], [0, 1]]\<rparr>"

definition transport :: discretization where "transport = \<lparr>keyword = ''transport''\<rparr>"

definition example_grid :: grid where
  "example_grid = \<lparr>dim = 1, num_faces = 2, num_cells = 1, cell_faces = \<lparr>ncols = 1, rows = [[-1], [1]]\<rparr>\<rparr>"

definition example_data :: data where
  "example_data =
     \<lparr>PARAMETERS = [''transport'' \<mapsto> \<lparr>time_step = Some (1/2), source = Some [4]\<rparr>],
      DISCRETIZATION_MATRICES =
        [''transport'' \<mapsto> \<lparr>bound_flux = Some I2, bound_source = Some \<lparr>ncols = 1, rows = [[1]]\<rparr>\<rparr>]\<rparr>"

definition example_mortar_grid :: MortarGrid where
  "example_mortar_grid = \<lparr>mortar_to_slave_int = \<lparr>ncols = 1, rows = [[1]]\<rparr>,
      mortar_to_master_int = \<lparr>ncols = 1, rows = [[1], [0]]\<rparr>\<rparr>"

definition example_edge :: edge_data where
  "example_edge = \<lparr>mortar_grid = Some example_mortar_grid\<rparr>"

definition example_coupling :: coupling where
  "example_coupling = \<lparr>cc = [[Z, Z, \<lparr>ncols = 1, rows = [[5]]\<rparr>], [Z, Z, Z], [Z, Z, \<lparr>ncols = 2, rows = [[0, 0]]\<rparr>]],
     matrix = [[Z, Z, Z], [Z, Z, Z], [Z, Z, Z]], rhs = [[0], [0], [0]]\<rparr>"

definition example_after :: coupling where
  "example_after = example_coupling\<lparr>cc := [[Z, Z, \<lparr>ncols = 1, rows = [[9/2]]\<rparr>], [Z, Z, Z], [Z, Z, \<lparr>ncols = 2, rows = [[0, 0]]\<rparr>]]\<rparr>"

definition example_super :: "discretization \<Rightarrow> grid \<Rightarrow> data \<Rightarrow> error + spmatrix \<times> real list" where
  "example_super self g d = Inr (\<lparr>ncols = 2, rows = [[2, -1], [-1, 2]]\<rparr>, [6, 0])"

definition cell_ndof :: "discretization \<Rightarrow> grid \<Rightarrow> nat" where
  "cell_ndof self g = num_cells g"

definition three_ndof :: "discretization \<Rightarrow> grid \<Rightarrow> nat" where
  "three_ndof self g = 3"

definition point_grid :: grid where
  "point_grid = \<lparr>dim = 0, num_faces = 0, num_cells = 1, cell_faces = \<lparr>ncols = 1, rows = []\<rparr>\<rparr>"

definition point_data :: data where
  "point_data =
     \<lparr>PARAMETERS = [''transport'' \<mapsto> \<lparr>time_step = Some (1/2), source = None\<rparr>],
      DISCRETIZATION_MATRICES =
        [''transport'' \<mapsto> \<lparr>bound_flux = Some \<lparr>ncols = 0, rows = []\<rparr>, bound_source = None\<rparr>]\<rparr>"

text \<open>
  A grid with two cells and three faces, with a data dictionary as
  \<open>pp.initialize_default_data\<close> leaves it before \<open>discretize()\<close> has run (parameters stored,
  the dictionary of matrices empty) and one in which \<open>bound_source\<close> is stored.
\<close>

definition two_cell_grid :: grid where
  "two_cell_grid =
     \<lparr>dim = 1, num_faces = 3, num_cells = 2,
      cell_faces = \<lparr>ncols = 2, rows = [[-1, 0], [1, -1], [0, 1]]\<rparr>\<rparr>"

definition undiscretized_data :: data where
  "undiscretized_data =
     \<lparr>PARAMETERS = [''transport'' \<mapsto> \<lparr>time_step = Some (1/2), source = Some [5, 6]\<rparr>],
      DISCRETIZATION_MATRICES =
        [''transport'' \<mapsto> \<lparr>bound_flux = None, bound_source = None\<rparr>]\<rparr>"

definition discretized_data :: data where
  "discretized_data =
     \<lparr>PARAMETERS = [''transport'' \<mapsto> \<lparr>time_step = Some (1/2), source = Some [5, 6]\<rparr>],
      DISCRETIZATION_MATRICES =
        [''transport'' \<mapsto> \<lparr>bound_flux = None,
                            bound_source = Some \<lparr>ncols = 2, rows = [[1, 2], [3, 4]]\<rparr>\<rparr>]\<rparr>"







section \<open>float64 arithmetic\<close>




section \<open>The notebooks as sequences of calls\<close>










subsection \<open>Orders of calls\<close>






section \<open>The recorded outputs of the notebooks\<close>

text \<open>
  A notebook file stores, for every code cell, its execution count and the outputs recorded
  when it was last run: text written to a stream, the value of the last expression, a
  displayed figure, or the traceback of an exception. The traceback in this repository
  has \<open>ename\<close> AttributeError and \<open>evalue\<close>
  \<^verbatim>\<open>'FractureNetwork2d' object has no attribute 'to_vtk'\<close>; the model keeps the
  exception, the type of the object and the attribute.
\<close>

datatype cell_output = Stream | ExecuteResult | DisplayData | ErrorOutput error string string

record cell =
  execution_count :: "nat option"
  outputs :: "cell_output list"

text \<open>\<^verbatim>\<open>old/Fractures/sample_setup_with_fractures.ipynb\<close>\<close>

definition sample_setup_with_fractures_cells :: "cell list" where
  "sample_setup_with_fractures_cells =
     [\<lparr>execution_count = Some 1, outputs = []\<rparr>,
      \<lparr>execution_count = Some 2, outputs = []\<rparr>,
      \<lparr>execution_count = Some 19, outputs = []\<rparr>,
      \<lparr>execution_count = Some 20, outputs = []\<rparr>,
      \<lparr>execution_count = Some 21, outputs = []\<rparr>,
      \<lparr>execution_count = Some 22, outputs = [DisplayData]\<rparr>,
      \<lparr>execution_count = None, outputs = []\<rparr>]"

text \<open>\<^verbatim>\<open>old/PorePy development/bugs-improvements/variable_filter on assembler.discretize().ipynb\<close>\<close>

definition variable_filter_cells :: "cell list" where
  "variable_filter_cells =
     [\<lparr>execution_count = Some 19, outputs = []\<rparr>,
      \<lparr>execution_count = Some 20, outputs = []\<rparr>,
      \<lparr>execution_count = Some 21, outputs = []\<rparr>,
      \<lparr>execution_count = Some 22, outputs = []\<rparr>,
      \<lparr>execution_count = Some 23, outputs = []\<rparr>,
      \<lparr>execution_count = Some 24, outputs = [DisplayData]\<rparr>,
      \<lparr>execution_count = Some 25, outputs = []\<rparr>,
      \<lparr>execution_count = None, outputs = []\<rparr>]"

text \<open>\<^verbatim>\<open>old/Understanding code segments/Q&A-on-code.ipynb\<close>\<close>

definition q_and_a_on_code_cells :: "cell list" where
  "q_and_a_on_code_cells =
     [\<lparr>execution_count = None, outputs = []\<rparr>]"

text \<open>\<^verbatim>\<open>old/meshing-of-fractures/3D fracture meshing.ipynb\<close>\<close>

definition fracture_meshing_3d_cells :: "cell list" where
  "fracture_meshing_3d_cells =
     [\<lparr>execution_count = Some 1, outputs = []\<rparr>,
      \<lparr>execution_count = Some 2, outputs = []\<rparr>,
      \<lparr>execution_count = Some 3, outputs = []\<rparr>,
      \<lparr>execution_count = Some 4, outputs = []\<rparr>,
      \<lparr>execution_count = Some 5, outputs = [ExecuteResult]\<rparr>,
      \<lparr>execution_count = Some 6, outputs = []\<rparr>,
      \<lparr>execution_count = None, outputs = []\<rparr>]"

text \<open>\<^verbatim>\<open>old/transport/advection-diffusion-slim.ipynb\<close>\<close>

definition advection_diffusion_slim_cells :: "cell list" where
  "advection_diffusion_slim_cells =
     [\<lparr>execution_count = None, outputs = []\<rparr>,
      \<lparr>execution_count = None, outputs = []\<rparr>,
      \<lparr>execution_count = None, outputs = []\<rparr>,
      \<lparr>execution_count = None, outputs = []\<rparr>,
      \<lparr>execution_count = None, outputs = []\<rparr>,
      \<lparr>execution_count = None, outputs = []\<rparr>]"

text \<open>\<^verbatim>\<open>old/transport/step-by-step-simplest-transport-with-fracture.ipynb\<close>\<close>

definition step_by_step_2d_cells :: "cell list" where
  "step_by_step_2d_cells =
     [\<lparr>execution_count = Some 1, outputs = []\<rparr>,
      \<lparr>execution_count = Some 2, outputs = []\<rparr>,
      \<lparr>execution_count = Some 3, outputs = []\<rparr>,
      \<lparr>execution_count = Some 4, outputs = []\<rparr>,
      \<lparr>execution_count = Some 5, outputs = []\<rparr>,
      \<lparr>execution_count = Some 6, outputs = []\<rparr>,
      \<lparr>execution_count = Some 7, outputs = []\<rparr>,
      \<lparr>execution_count = Some 8, outputs = []\<rparr>,
      \<lparr>execution_count = Some 9, outputs = []\<rparr>,
      \<lparr>execution_count = Some 10, outputs = []\<rparr>,
      \<lparr>execution_count = Some 11, outputs = []\<rparr>,
      \<lparr>execution_count = Some 12, outputs = []\<rparr>,
      \<lparr>execution_count = Some 13, outputs = []\<rparr>,
      \<lparr>execution_count = Some 14, outputs = []\<rparr>,
      \<lparr>execution_count = Some 15, outputs = []\<rparr>,
      \<lparr>execution_count = Some 16, outputs = []\<rparr>,
      \<lparr>execution_count = Some 17, outputs = []\<rparr>,
      \<lparr>execution_count = Some 18, outputs = []\<rparr>,
      \<lparr>execution_count = Some 19, outputs = [ExecuteResult]\<rparr>,
      \<lparr>execution_count = Some 20, outputs = []\<rparr>,
      \<lparr>execution_count = Some 21, outputs = [Stream]\<rparr>,
      \<lparr>execution_count = Some 22, outputs = []\<rparr>]"

text \<open>\<^verbatim>\<open>old/transport/step-by-step-simplest-transport-with-fracture-3D.ipynb\<close>\<close>

definition step_by_step_3d_cells :: "cell list" where
  "step_by_step_3d_cells =
     [\<lparr>execution_count = Some 1, outputs = []\<rparr>,
      \<lparr>execution_count = Some 2, outputs = []\<rparr>,
      \<lparr>execution_count = Some 3, outputs = []\<rparr>,
      \<lparr>execution_count = Some 4, outputs = []\<rparr>,
      \<lparr>execution_count = Some 5, outputs = []\<rparr>,
      \<lparr>execution_count = Some 6, outputs = []\<rparr>,
      \<lparr>execution_count = Some 7, outputs = []\<rparr>,
      \<lparr>execution_count = Some 8, outputs = [Stream]\<rparr>,
      \<lparr>execution_count = Some 9, outputs = []\<rparr>,
      \<lparr>execution_count = Some 10, outputs = []\<rparr>,
      \<lparr>execution_count = Some 11, outputs = []\<rparr>,
      \<lparr>execution_count = Some 12, outputs = []\<rparr>,
      \<lparr>execution_count = Some 13, outputs = []\<rparr>,
      \<lparr>execution_count = Some 14, outputs = []\<rparr>,
      \<lparr>execution_count = Some 15, outputs = []\<rparr>,
      \<lparr>execution_count = Some 16, outputs = []\<rparr>,
      \<lparr>execution_count = Some 17, outputs = []\<rparr>,
      \<lparr>execution_count = Some 18, outputs = []\<rparr>,
      \<lparr>execution_count = Some 19, outputs = []\<rparr>,
      \<lparr>execution_count = Some 20, outputs = [Stream]\<rparr>,
      \<lparr>execution_count = Some 21, outputs = []\<rparr>,
      \<lparr>execution_count = Some 22, outputs = []\<rparr>,
      \<lparr>execution_count = Some 23, outputs = []\<rparr>,
      \<lparr>execution_count = Some 24, outputs = []\<rparr>,
      \<lparr>execution_count = Some 25, outputs = [ExecuteResult]\<rparr>,
      \<lparr>execution_count = Some 26, outputs = [ExecuteResult]\<rparr>,
      \<lparr>execution_count = Some 27, outputs = []\<rparr>,
      \<lparr>execution_count = None, outputs = []\<rparr>]"

text \<open>\<^verbatim>\<open>src/mastersproject/GTS/test/test pressure value at injection point.ipynb\<close>\<close>

definition test_pressure_value_cells :: "cell list" where
  "test_pressure_value_cells =
     [\<lparr>execution_count = Some 1, outputs = [Stream]\<rparr>,
      \<lparr>execution_count = Some 2, outputs = []\<rparr>,
      \<lparr>execution_count = Some 3, outputs = [Stream, Stream, Stream]\<rparr>,
      \<lparr>execution_count = Some 4, outputs = []\<rparr>,
      \<lparr>execution_count = Some 5, outputs = [ExecuteResult]\<rparr>,
      \<lparr>execution_count = Some 32, outputs = [ExecuteResult]\<rparr>,
      \<lparr>execution_count = Some 36, outputs = [ExecuteResult]\<rparr>,
      \<lparr>execution_count = Some 37, outputs = [ExecuteResult]\<rparr>,
      \<lparr>execution_count = Some 44, outputs = [ExecuteResult]\<rparr>,
      \<lparr>execution_count = Some 47, outputs = [ExecuteResult]\<rparr>,
      \<lparr>execution_count = Some 49, outputs = [ExecuteResult]\<rparr>,
      \<lparr>execution_count = Some 55, outputs = [ExecuteResult]\<rparr>,
      \<lparr>execution_count = Some 56, outputs = [ExecuteResult]\<rparr>,
      \<lparr>execution_count = None, outputs = []\<rparr>]"

text \<open>\<^verbatim>\<open>unnamed/part_000\<close>\<close>

definition part_000_cells :: "cell list" where
  "part_000_cells =
     [\<lparr>execution_count = Some 1, outputs = []\<rparr>,
      \<lparr>execution_count = Some 2, outputs = []\<rparr>,
      \<lparr>execution_count = Some 5, outputs = [ErrorOutput AttributeError ''FractureNetwork2d'' ''to_vtk'']\<rparr>,
      \<lparr>execution_count = Some 6, outputs = [Stream]\<rparr>,
      \<lparr>execution_count = Some 8, outputs = []\<rparr>,
      \<lparr>execution_count = None, outputs = []\<rparr>]"

definition notebooks :: "cell list list" where
  "notebooks =
     [sample_setup_with_fractures_cells, variable_filter_cells, q_and_a_on_code_cells,
      fracture_meshing_3d_cells, advection_diffusion_slim_cells, step_by_step_2d_cells,
      step_by_step_3d_cells, test_pressure_value_cells, part_000_cells]"

fun is_error :: "cell_output \<Rightarrow> bool" where
  "is_error (ErrorOutput e t a) = True"
| "is_error _ = False"

definition error_cells :: "cell list \<Rightarrow> cell list" where
  "error_cells cells = filter (\<lambda>c. list_ex is_error (outputs c)) cells"

text \<open>
  The third code cell of \<^verbatim>\<open>unnamed/part_000\<close> is the statement
  \<^verbatim>\<open>network_2d.to_vtk('fracture_network.vtu')\<close>: a method call on a variable. The
  second cell has bound \<open>network_2d\<close> to \<open>pp.FractureNetwork2d(p, e, domain)\<close> and \<open>gb\<close>
  to the grid bucket \<open>network_2d.mesh(mesh_args)\<close>.
\<close>

record method_call =
  receiver :: string
  method_name :: string
  arguments :: "string list"

definition to_vtk_cell :: method_call where
  "to_vtk_cell =
     \<lparr>receiver = ''network_2d'', method_name = ''to_vtk'',
      arguments = [''fracture_network.vtu'']\<rparr>"

definition part_000_namespace :: "string \<rightharpoonup> string" where
  "part_000_namespace = [''network_2d'' \<mapsto> ''FractureNetwork2d'', ''gb'' \<mapsto> ''GridBucket'']"

text \<open>
  Python evaluates \<open>x.m(args)\<close> by looking up \<open>x\<close>, then the attribute \<open>m\<close> of its
  type, and only then calling it. The methods of the library types are the parameter
  \<open>library\<close>: for a type and an attribute name, the method if the type has it. The program
  state is whatever the methods work on.
\<close>

definition call_method ::
  "(string \<Rightarrow> string \<Rightarrow> (string list \<Rightarrow> 's \<Rightarrow> error option \<times> 's) option) \<Rightarrow>
   (string \<rightharpoonup> string) \<Rightarrow> method_call \<Rightarrow> 's \<Rightarrow> error option \<times> 's" where
  "call_method library namespace c st =
     (case namespace (receiver c) of
        None \<Rightarrow> (Some NameError, st)
      | Some ty \<Rightarrow>
          (case library ty (method_name c) of
             None \<Rightarrow> (Some AttributeError, st)
           | Some m \<Rightarrow> m (arguments c) st))"

definition example_library ::
  "string \<Rightarrow> string \<Rightarrow> (string list \<Rightarrow> string list \<Rightarrow> error option \<times> string list) option" where
  "example_library ty a =
     (if ty = ''FractureNetwork3d'' \<and> a = ''to_vtk''
      then Some (\<lambda>args files. (None, args @ files))
      else None)"

section \<open>The container build recipe\<close>

text \<open>
  The Dockerfile is a list of instructions. A \<open>RUN\<close> instruction holds one shell command,
  given by its words (a line continued with a backslash is one command).
\<close>

datatype instruction = FROM string | RUN "string list" | WORKDIR string

definition Dockerfile :: "instruction list" where
  "Dockerfile =
     [FROM ''intelpython/intelpython3_core'',
      RUN [''conda'', ''config'', ''--append'', ''channels'', ''conda-forge''],
      RUN [''conda'', ''config'', ''--append'', ''channels'', ''defaults''],
      RUN [''conda'', ''install'', ''meshio'', ''networkx'', ''sympy'', ''matplotlib'', ''cython'',
           ''future'', ''shapely'', ''pytest'', ''pytest-cov'', ''pytest-runner'', ''black'',
           ''mypy'', ''flake8'', ''pendulum'', ''pandas'', ''pydantic'', ''pytest-mock''],
      RUN [''pip'', ''install'', ''vtk''],
      RUN [''apt-get'', ''install'', ''libgl1'', ''libglu1'', ''libxcursor1'', ''libxft2'',
           ''libxinerama1'', ''-y''],
      RUN [''pip'', ''install'', ''gmsh''],
      RUN [''conda'', ''install'', ''tornado''],
      RUN [''conda'', ''install'', ''conda-build''],
      RUN [''conda'', ''install'', ''-c'', ''haasad'', ''pypardiso''],
      WORKDIR ''/home'',
      RUN [''wget'',
           ''https://raw.githubusercontent.com/keileg/polyhedron/master/polyhedron.py''],
      RUN [''mkdir'', ''poly''],
      RUN [''mv'', ''polyhedron.py'', ''poly/robust_point_in_polyhedron.py''],
      RUN [''conda'', ''develop'', ''poly''],
      RUN [''git'', ''clone'', ''--single-branch'', ''--branch'', ''develop'',
           ''https://github.com/pmgbergen/porepy.git''],
      RUN [''conda'', ''develop'', ''porepy/src''],
      RUN [''git'', ''clone'', ''--single-branch'', ''--branch'', ''develop'',
           ''https://github.com/haakon-e/mastersproject.git''],
      RUN [''conda'', ''develop'', ''mastersproject/src''],
      RUN [''conda'', ''develop'', ''mastersproject/src/mastersproject'']]"

text \<open>
  What a build leaves in the image, as far as the instructions of this recipe go: the
  packages installed by a package manager, the files downloaded, the repositories cloned
  and the directories registered with \<open>conda develop\<close>.
\<close>

record repository =
  url :: string
  branch :: "string option"
  single_branch :: bool

record image =
  base :: string
  workdir :: string
  packages :: "string list"
  downloads :: "string list"
  repositories :: "repository list"
  develop :: "string list"

text \<open>
  The arguments of \<open>git clone\<close>: \<open>--single-branch\<close>, \<open>--branch\<close> followed by the name of
  the branch, and the address of the repository.
\<close>

fun clone_arguments :: "string list \<Rightarrow> repository \<Rightarrow> repository" where
  "clone_arguments [] r = r"
| "clone_arguments [a] r =
     (if a = ''--single-branch'' then r\<lparr>single_branch := True\<rparr> else r\<lparr>url := a\<rparr>)"
| "clone_arguments (a # b # rest) r =
     (if a = ''--single-branch'' then clone_arguments (b # rest) (r\<lparr>single_branch := True\<rparr>)
      else if a = ''--branch'' then clone_arguments rest (r\<lparr>branch := Some b\<rparr>)
      else clone_arguments (b # rest) (r\<lparr>url := a\<rparr>))"

definition is_option :: "string \<Rightarrow> bool" where
  "is_option w = (take 1 w = ''-'')"

definition run :: "string list \<Rightarrow> image \<Rightarrow> image" where
  "run command img =
     (if take 2 command = [''git'', ''clone'']
      then img\<lparr>repositories := repositories img @
             [clone_arguments (drop 2 command) \<lparr>url = [], branch = None, single_branch = False\<rparr>]\<rparr>
      else if take 1 command = [''wget'']
      then img\<lparr>downloads := downloads img @ filter (\<lambda>w. \<not> is_option w) (drop 1 command)\<rparr>
      else if take 2 command = [''conda'', ''develop'']
      then img\<lparr>develop := develop img @ drop 2 command\<rparr>
      else if take 2 command = [''conda'', ''install'']
      then img\<lparr>packages := packages img @
             (case drop 2 command of
                a # b # rest \<Rightarrow> if a = ''-c'' then rest else a # b # rest
              | rest \<Rightarrow> rest)\<rparr>
      else if take 2 command = [''pip'', ''install''] \<or> take 2 command = [''apt-get'', ''install'']
      then img\<lparr>packages := packages img @ filter (\<lambda>w. \<not> is_option w) (drop 2 command)\<rparr>
      else img)"

fun build_step :: "image \<Rightarrow> instruction \<Rightarrow> image" where
  "build_step img (FROM b) = img\<lparr>base := b\<rparr>"
| "build_step img (RUN command) = run command img"
| "build_step img (WORKDIR d) = img\<lparr>workdir := d\<rparr>"

definition build :: "instruction list \<Rightarrow> image" where
  "build instructions =
     foldl build_step
       \<lparr>base = [], workdir = ''/'', packages = [], downloads = [], repositories = [], develop = []\<rparr>
       instructions"

section \<open>Properties\<close>

subsection \<open>The assembled matrix and right-hand side\<close>

lemma matrix_times_scalar_commute: "matrix_times_scalar M c = scalar_times_matrix c M"
  by (simp add: matrix_times_scalar_def scalar_times_matrix_def mult.commute)

lemma vector_times_scalar_commute: "vector_times_scalar v c = scalar_times_vector c v"
  by (simp add: vector_times_scalar_def scalar_times_vector_def mult.commute)

lemma get_time_step_Inr:
  "get_time_step d self = Inr dt \<longleftrightarrow>
   (\<exists>p. PARAMETERS d (keyword self) = Some p \<and> time_step p = Some dt)"
  by (auto simp: get_time_step_def and_then_def getitem_def present_def split: option.splits)

text \<open>
  C1. For every grid and data dictionary whose parameters under the keyword of the
  discretization hold a time step \<open>dt\<close>, \<open>ImplicitTpfa.assemble_matrix_rhs\<close> returns
  \<open>(dt * A, dt * b)\<close>, where \<open>(A, b)\<close> is what the method of the base class returns
  on the same arguments.
\<close>

theorem ImplicitTpfa_assemble_matrix_rhs_rescales:
  assumes "PARAMETERS d (keyword self) = Some p" and "time_step p = Some dt"
    and "super_assemble_matrix_rhs self g d = Inr (A, b)"
  shows "ImplicitTpfa_assemble_matrix_rhs super_assemble_matrix_rhs self g d =
         Inr (scalar_times_matrix dt A, scalar_times_vector dt b)"
proof -
  have "get_time_step d self = Inr dt"
    using assms(1,2) by (auto simp: get_time_step_Inr)
  with assms(3) show ?thesis
    by (simp add: ImplicitTpfa_assemble_matrix_rhs_def and_then_def
        matrix_times_scalar_commute vector_times_scalar_commute)
qed

theorem ImplicitTpfa_assemble_matrix_rhs_rescales_witness:
  "PARAMETERS example_data (keyword transport) = Some \<lparr>time_step = Some (1/2), source = Some [4]\<rparr> \<and>
   example_super transport example_grid example_data = Inr (\<lparr>ncols = 2, rows = [[2, -1], [-1, 2]]\<rparr>, [6, 0]) \<and>
   ImplicitTpfa_assemble_matrix_rhs example_super transport example_grid example_data =
     Inr (\<lparr>ncols = 2, rows = [[1, -1/2], [-1/2, 1]]\<rparr>, [3, 0])"
proof -
  have h1: "PARAMETERS example_data (keyword transport) = Some \<lparr>time_step = Some (1/2), source = Some [4]\<rparr>"
    by (simp add: example_data_def transport_def)
  have h2: "time_step \<lparr>time_step = Some (1/2), source = Some [4::real]\<rparr> = Some (1/2)"
    by simp
  have h3: "example_super transport example_grid example_data = Inr (\<lparr>ncols = 2, rows = [[2, -1], [-1, 2]]\<rparr>, [6, 0])"
    by (simp add: example_super_def)
  from ImplicitTpfa_assemble_matrix_rhs_rescales[where super_assemble_matrix_rhs = example_super
      and self = transport and g = example_grid and d = example_data, OF h1 h2 h3] h1 h3
  show ?thesis
    by (simp add: scalar_times_matrix_def scalar_times_vector_def)
qed

subsection \<open>Scalars commute with the matrix product\<close>




subsection \<open>Reading and storing a block\<close>

lemma axis_index_less: "axis_index n i = Inr r \<Longrightarrow> r < n"
  by (auto simp: axis_index_def split: if_splits)

lemma axis_index_nonneg: "axis_index n j = Inr c \<Longrightarrow> 0 \<le> j \<Longrightarrow> c = nat j"
  by (auto simp: axis_index_def split: if_splits)

lemma block_get_set:
  assumes "block_set a i j v = Inr a'"
  shows "block_get a' i j = Inr v"
proof -
  from assms obtain r c where r: "axis_index (length a) i = Inr r"
    and c: "axis_index (length (a ! r)) j = Inr c" and a': "a' = a[r := (a ! r)[c := v]]"
    by (auto simp: block_set_def and_then_def split: sum.splits)
  have "r < length a" "c < length (a ! r)"
    using r c by (auto dest: axis_index_less)
  then show ?thesis
    using r c by (simp add: block_get_def and_then_def a')
qed

lemma block_set_frame:
  assumes "block_set a i j v = Inr a'"
  shows "\<exists>r c. axis_index (length a) i = Inr r \<and> axis_index (length (a ! r)) j = Inr c \<and>
           a' = a[r := (a ! r)[c := v]]"
  using assms by (auto simp: block_set_def and_then_def split: sum.splits)

lemma block_set_others:
  assumes "block_set a i 2 v = Inr a'"
  shows "\<exists>r. axis_index (length a) i = Inr r \<and>
           (\<forall>k j. (k, j) \<noteq> (r, 2) \<longrightarrow> a' ! k ! j = a ! k ! j) \<and>
           length a' = length a \<and> (\<forall>k. length (a' ! k) = length (a ! k))"
proof -
  from block_set_frame[OF assms] obtain r c where r: "axis_index (length a) i = Inr r"
    and c: "axis_index (length (a ! r)) 2 = Inr c" and a': "a' = a[r := (a ! r)[c := v]]"
    by blast
  have c2: "c = 2" using axis_index_nonneg[OF c] by simp
  have rl: "r < length a" using r by (rule axis_index_less)
  have "a' ! k ! j = a ! k ! j" if "(k, j) \<noteq> (r, 2)" for k j
  proof (cases "k = r")
    case True
    with that have "j \<noteq> 2" by simp
    with True rl show ?thesis by (simp add: a' c2)
  next
    case False
    then show ?thesis by (simp add: a')
  qed
  moreover have "length (a' ! k) = length (a ! k)" for k
    using rl by (cases "k = r") (simp_all add: a')
  ultimately show ?thesis using r by (auto simp: a')
qed

lemma block_get_then_set:
  "block_get a i j = Inr old \<Longrightarrow> \<exists>a'. block_set a i j v = Inr a'"
  by (auto simp: block_get_def block_set_def and_then_def split: sum.splits)



subsection \<open>What a normal return of the coupling methods implies\<close>


lemma flux_returns:
  assumes "ImplicitTpfa_assemble_int_bound_flux map_hf_2_f self g d data_edge grid_swap st self_ind = (None, st')"
  shows "\<exists>dt bf0 mg bf old m1 m2 new cc'.
     get_time_step d self = Inr dt \<and> get_bound_flux d self = Inr bf0 \<and>
     mortar_grid data_edge = Some mg \<and> face_bound_flux map_hf_2_f g bf0 = Inr bf \<and>
     \<not> (0 < dim g \<and> ncols bf \<noteq> nrows (flux_proj mg grid_swap)) \<and>
     block_get (cc st) self_ind 2 = Inr old \<and>
     matrix_times_matrix (scalar_times_matrix dt (transpose_matrix (cell_faces g))) bf = Inr m1 \<and>
     matrix_times_matrix m1 (flux_proj mg grid_swap) = Inr m2 \<and>
     matrix_plus old m2 = Inr new \<and>
     block_set (cc st) self_ind 2 new = Inr cc' \<and> st' = st\<lparr>cc := cc'\<rparr>"
  using assms
  unfolding ImplicitTpfa_assemble_int_bound_flux_def and_then_def Let_def present_def
  by (auto split: sum.splits option.splits if_splits)

lemma source_returns:
  assumes "ImplicitTpfa_assemble_int_bound_source self g d data_edge grid_swap st self_ind = (None, st')"
  shows "\<exists>dt mg old new cc'.
     get_time_step d self = Inr dt \<and> mortar_grid data_edge = Some mg \<and>
     block_get (cc st) self_ind 2 = Inr old \<and>
     matrix_minus old (matrix_times_scalar (source_proj mg grid_swap) dt) = Inr new \<and>
     block_set (cc st) self_ind 2 new = Inr cc' \<and> st' = st\<lparr>cc := cc'\<rparr>"
  using assms
  unfolding ImplicitTpfa_assemble_int_bound_source_def and_then_def Let_def present_def
  by (auto split: sum.splits option.splits if_splits)

subsection \<open>The right-hand side of the source term\<close>

text \<open>
  C2. The claim is that for every data dictionary whose parameters hold a time step \<open>dt\<close>
  and a source array with one value per cell, \<open>ImplicitScalarSource.assemble_rhs\<close> returns
  \<open>bound_source * sources * dt\<close>. On a data dictionary that has not been discretized the
  parameters are stored and the dictionary of matrices is empty: there the call raises
  KeyError, where the docstring of the method says that the necessary operators are
  discretized when the data dictionary lacks them. Where \<open>bound_source\<close> is stored the
  call returns the product: with \<open>bound_source = [[1, 2], [3, 4]]\<close>, sources \<open>[5, 6]\<close>
  and \<open>dt = 1/2\<close> it returns \<open>[17/2, 39/2]\<close>.
\<close>

theorem ImplicitScalarSource_assemble_rhs_undiscretized:
  "PARAMETERS undiscretized_data (keyword transport) =
     Some \<lparr>time_step = Some (1/2), source = Some [5, 6]\<rparr> \<and>
   length [5, 6 :: real] = num_cells two_cell_grid \<and>
   DISCRETIZATION_MATRICES undiscretized_data (keyword transport) =
     Some \<lparr>bound_flux = None, bound_source = None\<rparr> \<and>
   ImplicitScalarSource_assemble_rhs cell_ndof transport two_cell_grid undiscretized_data =
     Inl KeyError \<and>
   ImplicitScalarSource_assemble_rhs cell_ndof transport two_cell_grid discretized_data =
     Inr [17/2, 39/2]"
  by code_simp

text \<open>
  C10. The claim is that the call fails its assertion when \<open>sources.size\<close> differs from
  \<open>ndof(g)\<close>, and that otherwise the assertion passes and the vector returned has length
  \<open>ndof(g)\<close>. On the data dictionary that has not been discretized the source array has one
  value per cell and the assertion passes, but no vector is returned: the call raises
  KeyError, for want of the step the docstring describes (as in C2), where the docstring
  says \<open>Returns: np.array (self.ndof)\<close>. On the discretized data dictionary the vector
  returned has \<open>ndof(g)\<close> entries, and with an \<open>ndof\<close> that differs from the size of the
  source array the assertion fails, as the claim says.
\<close>

theorem ImplicitScalarSource_assemble_rhs_no_vector:
  "PARAMETERS undiscretized_data (keyword transport) =
     Some \<lparr>time_step = Some (1/2), source = Some [5, 6]\<rparr> \<and>
   length [5, 6 :: real] = cell_ndof transport two_cell_grid \<and>
   ImplicitScalarSource_assemble_rhs cell_ndof transport two_cell_grid undiscretized_data \<noteq>
     Inl AssertionError \<and>
   ImplicitScalarSource_assemble_rhs cell_ndof transport two_cell_grid undiscretized_data =
     Inl KeyError \<and>
   map_sum id length
     (ImplicitScalarSource_assemble_rhs cell_ndof transport two_cell_grid discretized_data) =
     Inr (cell_ndof transport two_cell_grid) \<and>
   length [5, 6 :: real] \<noteq> three_ndof transport two_cell_grid \<and>
   ImplicitScalarSource_assemble_rhs three_ndof transport two_cell_grid discretized_data =
     Inl AssertionError"
  by code_simp

subsection \<open>The coupling methods\<close>




text \<open>
  C9. Whenever \<open>assemble_int_bound_flux\<close> or \<open>assemble_int_bound_source\<close> returns
  normally, every block of \<open>cc\<close> other than \<open>cc[self_ind, 2]\<close> is the one it was before
  the call, the shape of \<open>cc\<close> is the same, and \<open>matrix\<close> and \<open>rhs\<close> are unchanged.
\<close>

theorem ImplicitTpfa_int_bound_frame:
  "(ImplicitTpfa_assemble_int_bound_flux map_hf_2_f self g d data_edge grid_swap st self_ind = (None, st') \<longrightarrow>
      (\<exists>r. axis_index (length (cc st)) self_ind = Inr r \<and>
           (\<forall>k j. (k, j) \<noteq> (r, 2) \<longrightarrow> cc st' ! k ! j = cc st ! k ! j) \<and>
           length (cc st') = length (cc st) \<and> (\<forall>k. length (cc st' ! k) = length (cc st ! k)) \<and>
           matrix st' = matrix st \<and> rhs st' = rhs st)) \<and>
   (ImplicitTpfa_assemble_int_bound_source self g d data_edge grid_swap st self_ind = (None, st'') \<longrightarrow>
      (\<exists>r. axis_index (length (cc st)) self_ind = Inr r \<and>
           (\<forall>k j. (k, j) \<noteq> (r, 2) \<longrightarrow> cc st'' ! k ! j = cc st ! k ! j) \<and>
           length (cc st'') = length (cc st) \<and> (\<forall>k. length (cc st'' ! k) = length (cc st ! k)) \<and>
           matrix st'' = matrix st \<and> rhs st'' = rhs st))"
proof (intro conjI impI)
  assume "ImplicitTpfa_assemble_int_bound_flux map_hf_2_f self g d data_edge grid_swap st self_ind = (None, st')"
  from flux_returns[OF this] obtain new cc' where
    "block_set (cc st) self_ind 2 new = Inr cc'" "st' = st\<lparr>cc := cc'\<rparr>"
    by blast
  with block_set_others[of "cc st" self_ind new cc']
  show "\<exists>r. axis_index (length (cc st)) self_ind = Inr r \<and>
           (\<forall>k j. (k, j) \<noteq> (r, 2) \<longrightarrow> cc st' ! k ! j = cc st ! k ! j) \<and>
           length (cc st') = length (cc st) \<and> (\<forall>k. length (cc st' ! k) = length (cc st ! k)) \<and>
           matrix st' = matrix st \<and> rhs st' = rhs st"
    by simp
next
  assume "ImplicitTpfa_assemble_int_bound_source self g d data_edge grid_swap st self_ind = (None, st'')"
  from source_returns[OF this] obtain new cc' where
    "block_set (cc st) self_ind 2 new = Inr cc'" "st'' = st\<lparr>cc := cc'\<rparr>"
    by blast
  with block_set_others[of "cc st" self_ind new cc']
  show "\<exists>r. axis_index (length (cc st)) self_ind = Inr r \<and>
           (\<forall>k j. (k, j) \<noteq> (r, 2) \<longrightarrow> cc st'' ! k ! j = cc st ! k ! j) \<and>
           length (cc st'') = length (cc st) \<and> (\<forall>k. length (cc st'' ! k) = length (cc st ! k)) \<and>
           matrix st'' = matrix st \<and> rhs st'' = rhs st"
    by simp
qed

theorem ImplicitTpfa_int_bound_frame_witness:
  "ImplicitTpfa_assemble_int_bound_flux (\<lambda>g. I2) transport example_grid example_data example_edge
     False example_coupling 0 = (None, example_after) \<and>
   ImplicitTpfa_assemble_int_bound_source transport example_grid example_data example_edge
     False example_coupling 0 = (None, example_after) \<and>
   cc example_after ! 0 ! 1 = cc example_coupling ! 0 ! 1 \<and>
   cc example_after ! 2 ! 2 = cc example_coupling ! 2 ! 2 \<and>
   matrix example_after = matrix example_coupling \<and> rhs example_after = rhs example_coupling"
proof -
  have h1: "ImplicitTpfa_assemble_int_bound_flux (\<lambda>g. I2) transport example_grid example_data
     example_edge False example_coupling 0 = (None, example_after)"
    by code_simp
  have h2: "ImplicitTpfa_assemble_int_bound_source transport example_grid example_data example_edge
     False example_coupling 0 = (None, example_after)"
    by code_simp
  have e: "axis_index (length (cc example_coupling)) 0 = Inr 0"
    by code_simp
  note inst = ImplicitTpfa_int_bound_frame[of "\<lambda>g. I2" transport example_grid example_data
      example_edge False example_coupling 0 example_after example_after]
  from inst h1 obtain r where
    f: "axis_index (length (cc example_coupling)) 0 = Inr r"
       "\<forall>k j. (k, j) \<noteq> (r, 2) \<longrightarrow> cc example_after ! k ! j = cc example_coupling ! k ! j"
       "matrix example_after = matrix example_coupling" "rhs example_after = rhs example_coupling"
    by auto
  have r: "r = 0" using f(1) unfolding e by simp
  have "cc example_after ! 0 ! 1 = cc example_coupling ! 0 ! 1"
    using f(2) unfolding r by simp
  moreover from inst h2 obtain r' where
    g: "axis_index (length (cc example_coupling)) 0 = Inr r'"
       "\<forall>k j. (k, j) \<noteq> (r', 2) \<longrightarrow> cc example_after ! k ! j = cc example_coupling ! k ! j"
    by auto
  have r': "r' = 0" using g(1) unfolding e by simp
  have "cc example_after ! 2 ! 2 = cc example_coupling ! 2 ! 2"
    using g(2) unfolding r' by simp
  ultimately show ?thesis using h1 h2 f(3,4) by blast
qed

text \<open>
  C8, as the claim states it, fails: ValueError is raised in two calls where the condition
  of the \<open>raise\<close> statement does not hold. On a point grid (dimension 0, no faces) the
  check is skipped and the product of the \<open>0 \<times> 0\<close> matrix \<open>bound_flux\<close> with the
  \<open>1 \<times> 1\<close> projection raises; on a grid of dimension 1 with matching \<open>bound_flux\<close> and
  \<open>proj\<close>, the addition of the \<open>1 \<times> 1\<close> product to the \<open>1 \<times> 2\<close> block \<open>cc[2, 2]\<close>
  raises. In both calls \<open>cc\<close> is unchanged.
\<close>

theorem ImplicitTpfa_assemble_int_bound_flux_ValueError_counterexample:
  "dim point_grid = 0 \<and>
   get_bound_flux point_data transport = Inr \<lparr>ncols = 0, rows = []\<rparr> \<and>
   flux_proj example_mortar_grid True = \<lparr>ncols = 1, rows = [[1]]\<rparr> \<and>
   \<not> shapes_inconsistent (\<lambda>g. I2) point_grid \<lparr>ncols = 0, rows = []\<rparr> \<lparr>ncols = 1, rows = [[1]]\<rparr> \<and>
   ImplicitTpfa_assemble_int_bound_flux (\<lambda>g. I2) transport point_grid point_data example_edge
     True example_coupling 0 = (Some ValueError, example_coupling) \<and>
   dim example_grid = 1 \<and>
   get_bound_flux example_data transport = Inr I2 \<and>
   flux_proj example_mortar_grid False = \<lparr>ncols = 1, rows = [[1], [0]]\<rparr> \<and>
   \<not> shapes_inconsistent (\<lambda>g. I2) example_grid I2 \<lparr>ncols = 1, rows = [[1], [0]]\<rparr> \<and>
   block_get (cc example_coupling) 2 2 = Inr \<lparr>ncols = 2, rows = [[0, 0]]\<rparr> \<and>
   ImplicitTpfa_assemble_int_bound_flux (\<lambda>g. I2) transport example_grid example_data example_edge
     False example_coupling 2 = (Some ValueError, example_coupling)"
  by code_simp

text \<open>
  C8, amended. Let the time step, \<open>bound_flux\<close> and the mortar grid be stored and the
  optional mapping from sub-faces to faces be defined, with \<open>bf\<close> the mapped
  \<open>bound_flux\<close>. If the grid has dimension greater than 0 and \<open>bf\<close> has not as many
  columns as \<open>proj\<close> has rows, the method raises ValueError. When moreover \<open>self_ind\<close>
  indexes \<open>cc\<close>, the other operands have matching shapes (\<open>div\<close> has one column per row
  of \<open>bf\<close>, the block \<open>cc[self_ind, 2]\<close> has the shape of the product) and on a grid of
  dimension 0 \<open>bf\<close> has as many columns as \<open>proj\<close> has rows, the method raises ValueError
  if and only if the grid has dimension greater than 0 and the number of columns of \<open>bf\<close>
  differs from the number of rows of \<open>proj\<close>. Whenever the method raises, \<open>cc\<close>,
  \<open>matrix\<close> and \<open>rhs\<close> are unchanged.
\<close>

theorem ImplicitTpfa_assemble_int_bound_flux_ValueError:
  assumes "get_time_step d self = Inr dt" and "get_bound_flux d self = Inr bf0"
    and "mortar_grid data_edge = Some mg" and "face_bound_flux map_hf_2_f g bf0 = Inr bf"
  shows "(0 < dim g \<and> ncols bf \<noteq> nrows (flux_proj mg grid_swap) \<longrightarrow>
            ImplicitTpfa_assemble_int_bound_flux map_hf_2_f self g d data_edge grid_swap st self_ind =
            (Some ValueError, st)) \<and>
         (block_get (cc st) self_ind 2 = Inr old \<and> nrows (cell_faces g) = nrows bf \<and>
          nrows old = ncols (cell_faces g) \<and> ncols old = ncols (flux_proj mg grid_swap) \<and>
          (dim g = 0 \<longrightarrow> ncols bf = nrows (flux_proj mg grid_swap)) \<longrightarrow>
            (fst (ImplicitTpfa_assemble_int_bound_flux map_hf_2_f self g d data_edge grid_swap st self_ind)
               = Some ValueError \<longleftrightarrow>
             0 < dim g \<and> ncols bf \<noteq> nrows (flux_proj mg grid_swap))) \<and>
         (fst (ImplicitTpfa_assemble_int_bound_flux map_hf_2_f self g d data_edge grid_swap st self_ind)
            \<noteq> None \<longrightarrow>
          snd (ImplicitTpfa_assemble_int_bound_flux map_hf_2_f self g d data_edge grid_swap st self_ind)
            = st)"
proof (intro conjI impI)
  assume "0 < dim g \<and> ncols bf \<noteq> nrows (flux_proj mg grid_swap)"
  with assms show "ImplicitTpfa_assemble_int_bound_flux map_hf_2_f self g d data_edge grid_swap st self_ind =
            (Some ValueError, st)"
    by (simp add: ImplicitTpfa_assemble_int_bound_flux_def and_then_def present_def)
next
  assume h: "block_get (cc st) self_ind 2 = Inr old \<and> nrows (cell_faces g) = nrows bf \<and>
          nrows old = ncols (cell_faces g) \<and> ncols old = ncols (flux_proj mg grid_swap) \<and>
          (dim g = 0 \<longrightarrow> ncols bf = nrows (flux_proj mg grid_swap))"
  show "fst (ImplicitTpfa_assemble_int_bound_flux map_hf_2_f self g d data_edge grid_swap st self_ind)
               = Some ValueError \<longleftrightarrow>
             0 < dim g \<and> ncols bf \<noteq> nrows (flux_proj mg grid_swap)"
  proof (cases "0 < dim g \<and> ncols bf \<noteq> nrows (flux_proj mg grid_swap)")
    case True
    with assms show ?thesis
      by (simp add: ImplicitTpfa_assemble_int_bound_flux_def and_then_def present_def)
  next
    case False
    with h have eq: "ncols bf = nrows (flux_proj mg grid_swap)" by auto
    obtain cc' where "block_set (cc st) self_ind 2
        \<lparr>ncols = ncols old, rows = map2 (map2 (+)) (rows old)
          (map (\<lambda>r. map (dot r) (rows (transpose_matrix (flux_proj mg grid_swap))))
            (map (\<lambda>r. map (dot r) (rows (transpose_matrix bf)))
              (rows (scalar_times_matrix dt (transpose_matrix (cell_faces g))))))\<rparr> = Inr cc'"
      using block_get_then_set h by blast
    with assms h False eq show ?thesis
      by (simp add: ImplicitTpfa_assemble_int_bound_flux_def and_then_def present_def
          matrix_times_matrix_def matrix_plus_def nrows_def scalar_times_matrix_def
          transpose_matrix_def)
  qed
next
  assume "fst (ImplicitTpfa_assemble_int_bound_flux map_hf_2_f self g d data_edge grid_swap st self_ind)
            \<noteq> None"
  then show "snd (ImplicitTpfa_assemble_int_bound_flux map_hf_2_f self g d data_edge grid_swap st self_ind)
            = st"
    by (auto simp: ImplicitTpfa_assemble_int_bound_flux_def split: sum.splits)
qed

theorem ImplicitTpfa_assemble_int_bound_flux_ValueError_witness:
  "get_time_step example_data transport = Inr (1/2) \<and>
   get_bound_flux example_data transport = Inr I2 \<and>
   mortar_grid example_edge = Some example_mortar_grid \<and>
   face_bound_flux (\<lambda>g. I2) example_grid I2 = Inr I2 \<and>
   0 < dim example_grid \<and> ncols I2 \<noteq> nrows (flux_proj example_mortar_grid True) \<and>
   ImplicitTpfa_assemble_int_bound_flux (\<lambda>g. I2) transport example_grid example_data example_edge
     True example_coupling 0 = (Some ValueError, example_coupling) \<and>
   ncols I2 = nrows (flux_proj example_mortar_grid False) \<and>
   fst (ImplicitTpfa_assemble_int_bound_flux (\<lambda>g. I2) transport example_grid example_data example_edge
     False example_coupling 0) \<noteq> Some ValueError"
proof -
  have h: "get_time_step example_data transport = Inr (1/2)"
    "get_bound_flux example_data transport = Inr I2"
    "mortar_grid example_edge = Some example_mortar_grid"
    "face_bound_flux (\<lambda>g. I2) example_grid I2 = Inr I2"
    by code_simp+
  have c: "0 < dim example_grid \<and> ncols I2 \<noteq> nrows (flux_proj example_mortar_grid True)"
    by code_simp
  have s: "block_get (cc example_coupling) 0 2 = Inr \<lparr>ncols = 1, rows = [[5]]\<rparr> \<and>
      nrows (cell_faces example_grid) = nrows I2 \<and>
      nrows \<lparr>ncols = 1, rows = [[5::real]]\<rparr> = ncols (cell_faces example_grid) \<and>
      ncols \<lparr>ncols = 1, rows = [[5::real]]\<rparr> = ncols (flux_proj example_mortar_grid False) \<and>
      (dim example_grid = 0 \<longrightarrow> ncols I2 = nrows (flux_proj example_mortar_grid False))"
    by code_simp
  have n: "ncols I2 = nrows (flux_proj example_mortar_grid False)"
    by code_simp
  from ImplicitTpfa_assemble_int_bound_flux_ValueError[OF h, of True example_coupling 0] c
  have raise: "ImplicitTpfa_assemble_int_bound_flux (\<lambda>g. I2) transport example_grid example_data
     example_edge True example_coupling 0 = (Some ValueError, example_coupling)"
    by blast
  from ImplicitTpfa_assemble_int_bound_flux_ValueError[OF h, of False example_coupling 0
      "\<lparr>ncols = 1, rows = [[5]]\<rparr>"] s n
  have "fst (ImplicitTpfa_assemble_int_bound_flux (\<lambda>g. I2) transport example_grid example_data
     example_edge False example_coupling 0) \<noteq> Some ValueError"
    by blast
  with h c raise n show ?thesis by blast
qed

subsection \<open>The order of the calls of the notebooks\<close>










subsection \<open>The recorded traceback\<close>

text \<open>
  C5. Exactly one code cell of the notebooks records an error: the third code cell of
  \<^verbatim>\<open>unnamed/part_000\<close>, the call \<open>network_2d.to_vtk('fracture_network.vtu')\<close>, with an
  AttributeError naming the type \<open>FractureNetwork2d\<close> and the attribute \<open>to_vtk\<close>. When
  the type has no such attribute the call raises AttributeError and leaves the program
  state as it was.
\<close>

theorem one_error_cell:
  "concat (map error_cells notebooks) =
     [\<lparr>execution_count = Some 5,
       outputs = [ErrorOutput AttributeError ''FractureNetwork2d'' ''to_vtk'']\<rparr>] \<and>
   map (\<lambda>cells. length (error_cells cells)) notebooks = [0, 0, 0, 0, 0, 0, 0, 0, 1] \<and>
   part_000_cells ! 2 =
     \<lparr>execution_count = Some 5,
      outputs = [ErrorOutput AttributeError ''FractureNetwork2d'' ''to_vtk'']\<rparr> \<and>
   (library ''FractureNetwork2d'' ''to_vtk'' = None \<longrightarrow>
      call_method library part_000_namespace to_vtk_cell st = (Some AttributeError, st))"
proof (intro conjI impI)
  show "concat (map error_cells notebooks) =
     [\<lparr>execution_count = Some 5,
       outputs = [ErrorOutput AttributeError ''FractureNetwork2d'' ''to_vtk'']\<rparr>]"
    by code_simp
  show "map (\<lambda>cells. length (error_cells cells)) notebooks = [0, 0, 0, 0, 0, 0, 0, 0, 1]"
    by code_simp
  show "part_000_cells ! 2 =
     \<lparr>execution_count = Some 5,
      outputs = [ErrorOutput AttributeError ''FractureNetwork2d'' ''to_vtk'']\<rparr>"
    by code_simp
next
  assume "library ''FractureNetwork2d'' ''to_vtk'' = None"
  then show "call_method library part_000_namespace to_vtk_cell st = (Some AttributeError, st)"
    by (simp add: call_method_def part_000_namespace_def to_vtk_cell_def)
qed

theorem one_error_cell_witness:
  "example_library ''FractureNetwork2d'' ''to_vtk'' = None \<and>
   call_method example_library part_000_namespace to_vtk_cell [''frac_grid.vtu''] =
     (Some AttributeError, [''frac_grid.vtu''])"
proof -
  have h: "example_library ''FractureNetwork2d'' ''to_vtk'' = None"
    by (simp add: example_library_def)
  from one_error_cell[of example_library "[''frac_grid.vtu'']"] h show ?thesis
    by blast
qed

subsection \<open>The repositories of the container image\<close>

text \<open>
  C6. The build clones exactly two repositories, porepy and mastersproject, each with
  \<open>--single-branch\<close> at its branch \<open>develop\<close>. (The one other external source it fetches is
  a single file, \<open>polyhedron.py\<close>, downloaded with \<open>wget\<close>.)
\<close>

theorem Dockerfile_repositories:
  "repositories (build Dockerfile) =
     [\<lparr>url = ''https://github.com/pmgbergen/porepy.git'', branch = Some ''develop'',
       single_branch = True\<rparr>,
      \<lparr>url = ''https://github.com/haakon-e/mastersproject.git'', branch = Some ''develop'',
       single_branch = True\<rparr>]"
  by code_simp

end
